theory Spec2Isabelle
  imports Complex_Main "HOL-Library.Char_ord"
begin

section \<open>JavaScript values\<close>

text \<open>
  The hook \<^verbatim>\<open>useSupabase\<close> and the export and import views handle values of type
  \<^verbatim>\<open>any\<close>. A value is modelled by its \<^verbatim>\<open>typeof\<close> class and its content. A string is a
  list of code units (those below 256 are representable); a finite number is the
  rational it denotes; an object is the list of its own enumerable properties in the
  order \<^verbatim>\<open>Object.keys\<close> enumerates them.
\<close>

datatype jsnum = Fin rat | NaN | PosInf | NegInf

datatype jsval =
    JUndefined
  | JNull
  | JBool bool
  | JNum jsnum
  | JStr string
  | JArr "jsval list"
  | JObj "(string \<times> jsval) list"
  | JBigInt int
  | JSymbol string
  | JFunction string

type_synonym jsobj = "(string \<times> jsval) list"

datatype jstype =
  TUndefined | TBoolean | TNumber | TString | TObject | TBigint | TSymbol | TFunction

fun typeof :: "jsval \<Rightarrow> jstype" where
  "typeof JUndefined = TUndefined"
| "typeof JNull = TObject"
| "typeof (JBool b) = TBoolean"
| "typeof (JNum n) = TNumber"
| "typeof (JStr s) = TString"
| "typeof (JArr xs) = TObject"
| "typeof (JObj kvs) = TObject"
| "typeof (JBigInt i) = TBigint"
| "typeof (JSymbol d) = TSymbol"
| "typeof (JFunction src) = TFunction"

text \<open>\<^verbatim>\<open>Number.isInteger\<close>: a finite number with no fractional part.\<close>

fun Number_isInteger :: "jsnum \<Rightarrow> bool" where
  "Number_isInteger (Fin q) = (rat_of_int \<lfloor>q\<rfloor> = q)"
| "Number_isInteger NaN = False"
| "Number_isInteger PosInf = False"
| "Number_isInteger NegInf = False"

section \<open>Regular expressions\<close>

text \<open>
  The three regular expressions of the hook are anchored at the start, and built from
  character classes, counted repetition, one star and the end anchor. A pattern is the
  list of its pieces after the leading \<^verbatim>\<open>^\<close>; \<open>match_here\<close> is a backtracking matcher at
  position 0, so \<open>regex_test\<close> is \<^verbatim>\<open>RegExp.prototype.test\<close> for such a pattern.
\<close>

datatype crange = Single char | Range char char

type_synonym cclass = "crange list"

datatype piece =
    Times cclass nat
  | Star cclass
  | EndAnchor

fun in_range :: "crange \<Rightarrow> char \<Rightarrow> bool" where
  "in_range (Single d) c = (c = d)"
| "in_range (Range lo hi) c = (lo \<le> c \<and> c \<le> hi)"

definition in_class :: "cclass \<Rightarrow> char \<Rightarrow> bool" where
  "in_class cls c = list_ex (\<lambda>r. in_range r c) cls"

text \<open>
  The flag \<^verbatim>\<open>i\<close> (without \<^verbatim>\<open>u\<close>) compares canonicalised code units: a character matches
  a class when its upper-case form is the upper-case form of a member. Only the letters
  a to z change, and no code unit above 127 is mapped below 128.
\<close>

definition to_upper :: "char \<Rightarrow> char" where
  "to_upper c = (if CHR ''a'' \<le> c \<and> c \<le> CHR ''z'' then char_of (of_char c - (32::nat)) else c)"

definition to_lower :: "char \<Rightarrow> char" where
  "to_lower c = (if CHR ''A'' \<le> c \<and> c \<le> CHR ''Z'' then char_of (of_char c + (32::nat)) else c)"

definition class_accepts :: "bool \<Rightarrow> cclass \<Rightarrow> char \<Rightarrow> bool" where
  "class_accepts icase cls c =
     (if icase then in_class cls c \<or> in_class cls (to_lower c) \<or> in_class cls (to_upper c)
      else in_class cls c)"

fun match_here :: "bool \<Rightarrow> piece list \<Rightarrow> string \<Rightarrow> string option" where
  "match_here icase [] s = Some s"
| "match_here icase (EndAnchor # ps) s = (if s = [] then match_here icase ps s else None)"
| "match_here icase (Times cls 0 # ps) s = match_here icase ps s"
| "match_here icase (Times cls (Suc n) # ps) [] = None"
| "match_here icase (Times cls (Suc n) # ps) (c # cs) =
     (if class_accepts icase cls c then match_here icase (Times cls n # ps) cs else None)"
| "match_here icase (Star cls # ps) [] = match_here icase ps []"
| "match_here icase (Star cls # ps) (c # cs) =
     (if class_accepts icase cls c
      then (case match_here icase (Star cls # ps) cs of
              Some r \<Rightarrow> Some r
            | None \<Rightarrow> match_here icase ps (c # cs))
      else match_here icase ps (c # cs))"

definition regex_test :: "bool \<Rightarrow> piece list \<Rightarrow> string \<Rightarrow> bool" where
  "regex_test icase ps s = (match_here icase ps s \<noteq> None)"

abbreviation lit :: "char \<Rightarrow> piece" where
  "lit c \<equiv> Times [Single c] 1"

definition digit :: cclass where
  "digit = [Range CHR ''0'' CHR ''9'']"

definition hex_lower :: cclass where
  "hex_lower = [Range CHR ''0'' CHR ''9'', Range CHR ''a'' CHR ''f'']"

text \<open>\<^verbatim>\<open>/^\/([a-zA-Z_][a-zA-Z0-9_]*)$/\<close>\<close>

definition table_path_re :: "piece list" where
  "table_path_re =
     [lit CHR ''/'',
      Times [Range CHR ''a'' CHR ''z'', Range CHR ''A'' CHR ''Z'', Single CHR ''_''] 1,
      Star [Range CHR ''a'' CHR ''z'', Range CHR ''A'' CHR ''Z'', Range CHR ''0'' CHR ''9'',
            Single CHR ''_''],
      EndAnchor]"

text \<open>\<^verbatim>\<open>/^[0-9a-f]{8}-[0-9a-f]{4}-[0-9a-f]{4}-[0-9a-f]{4}-[0-9a-f]{12}$/i\<close>\<close>

definition uuid_re :: "piece list" where
  "uuid_re =
     [Times hex_lower 8, lit CHR ''-'', Times hex_lower 4, lit CHR ''-'',
      Times hex_lower 4, lit CHR ''-'', Times hex_lower 4, lit CHR ''-'',
      Times hex_lower 12, EndAnchor]"

text \<open>\<^verbatim>\<open>/^\d{4}-\d{2}-\d{2}T\d{2}:\d{2}:\d{2}/\<close>\<close>

definition timestamp_re :: "piece list" where
  "timestamp_re =
     [Times digit 4, lit CHR ''-'', Times digit 2, lit CHR ''-'', Times digit 2,
      lit CHR ''T'', Times digit 2, lit CHR '':'', Times digit 2, lit CHR '':'',
      Times digit 2]"

section \<open>Schema inference: \<^verbatim>\<open>inferDataType\<close>\<close>

definition inferDataType :: "jsval \<Rightarrow> string" where
  "inferDataType v =
     (if v = JNull \<or> v = JUndefined then ''text''
      else if typeof v = TBoolean then ''boolean''
      else if typeof v = TNumber then
        (case v of JNum n \<Rightarrow> if Number_isInteger n then ''integer'' else ''numeric''
                 | _ \<Rightarrow> ''numeric'')
      else if typeof v = TString then
        (case v of
           JStr s \<Rightarrow>
             if regex_test True uuid_re s then ''uuid''
             else if regex_test False timestamp_re s then ''timestamp with time zone''
             else ''text''
         | _ \<Rightarrow> ''text'')
      else if typeof v = TObject then ''jsonb''
      else ''text'')"

section \<open>The remote service\<close>

text \<open>
  Every request of the hook is one of the following. The service answers a request
  given the requests issued before it, so its answers may change over time. Awaiting a
  promise either fulfils with a value or rejects with a thrown value, of which the hook
  only reads \<^verbatim>\<open>err instanceof Error ? err.message : 'Unknown error'\<close>.
\<close>

datatype request =
    FetchRoot
  | FetchIntrospection
  | SelectLimit string nat
  | Insert string jsobj
  | Update string jsobj string jsval

datatype thrown = Error string | NotError

datatype 'a settled = Rejected thrown | Fulfilled 'a

record http_response =
  ok :: bool
  status :: nat
  json :: "jsval settled"

datatype pg_error = PgError (message: string) (instanceof_Error: bool)

record query_response =
  data :: "jsobj list option"
  error :: "pg_error option"

record service =
  fetch :: "request list \<Rightarrow> request \<Rightarrow> http_response settled"
  query :: "request list \<Rightarrow> request \<Rightarrow> query_response settled"

fun err_message :: "thrown \<Rightarrow> string" where
  "err_message (Error m) = m"
| "err_message NotError = ''Unknown error''"

section \<open>Built-in operations\<close>

text \<open>
  The double quote, the single quote and the line feed, which the messages and the SQL
  text contain.
\<close>

definition dq :: string where
  "dq = [CHR 0x22]"

definition sq :: char where
  "sq = CHR 0x27"

definition nl :: string where
  "nl = [CHR 0x0A]"

text \<open>The decimal rendering of a natural number, as a template literal prints it.\<close>

definition digit_char :: "nat \<Rightarrow> char" where
  "digit_char d = ''0123456789'' ! d"

fun nat_to_string :: "nat \<Rightarrow> string" where
  "nat_to_string n =
     (if n < 10 then [digit_char n]
      else nat_to_string (n div 10) @ [digit_char (n mod 10)])"

declare nat_to_string.simps [simp del]

definition int_to_string :: "int \<Rightarrow> string" where
  "int_to_string i = (if i < 0 then ''-'' @ nat_to_string (nat (- i)) else nat_to_string (nat i))"

text \<open>Truthiness, as \<^verbatim>\<open>if (x)\<close> and \<^verbatim>\<open>x && y\<close> read it.\<close>

fun truthy :: "jsval \<Rightarrow> bool" where
  "truthy JUndefined = False"
| "truthy JNull = False"
| "truthy (JBool b) = b"
| "truthy (JNum n) = (n \<noteq> Fin 0 \<and> n \<noteq> NaN)"
| "truthy (JStr s) = (s \<noteq> [])"
| "truthy (JBigInt i) = (i \<noteq> 0)"
| "truthy (JArr xs) = True"
| "truthy (JObj kvs) = True"
| "truthy (JSymbol d) = True"
| "truthy (JFunction src) = True"

text \<open>
  Reading a property that no prototype defines (here \<^verbatim>\<open>paths\<close>, and the fields of a
  row): the own property of an object, \<^verbatim>\<open>undefined\<close> on any other value. Reading a
  property of \<^verbatim>\<open>null\<close> or \<^verbatim>\<open>undefined\<close> throws a TypeError, which the callers check first.
\<close>

fun get_member :: "jsval \<Rightarrow> string \<Rightarrow> jsval" where
  "get_member (JObj kvs) k = (case map_of kvs k of Some v \<Rightarrow> v | None \<Rightarrow> JUndefined)"
| "get_member v k = JUndefined"

text \<open>\<^verbatim>\<open>Object.keys\<close> of a value that is neither \<^verbatim>\<open>null\<close> nor \<^verbatim>\<open>undefined\<close>.\<close>

fun Object_keys :: "jsval \<Rightarrow> string list" where
  "Object_keys (JObj kvs) = map fst kvs"
| "Object_keys (JArr xs) = map nat_to_string [0..<length xs]"
| "Object_keys (JStr s) = map nat_to_string [0..<length s]"
| "Object_keys v = []"

section \<open>Table discovery: \<^verbatim>\<open>getTables\<close>\<close>

record TableInfo =
  table_name :: string
  table_schema :: string
  table_type :: string

definition base_table :: "string \<Rightarrow> TableInfo" where
  "base_table tableName =
     \<lparr>table_name = tableName, table_schema = ''public'', table_type = ''BASE TABLE''\<rparr>"

text \<open>
  \<^verbatim>\<open>path.match(/^\/([a-zA-Z_][a-zA-Z0-9_]*)$/)\<close>: the result is \<^verbatim>\<open>null\<close>, or group 1,
  which spans everything after the leading slash.
\<close>

definition path_match :: "string \<Rightarrow> string option" where
  "path_match path = (if regex_test False table_path_re path then Some (tl path) else None)"

text \<open>Method 1: the paths of the OpenAPI document.\<close>

definition parse_paths :: "jsval \<Rightarrow> TableInfo list" where
  "parse_paths schema =
     (if truthy (get_member schema ''paths'') then
        foldl (\<lambda>discoveredTables path.
                 case path_match path of
                   Some tableName \<Rightarrow>
                     if tableName \<noteq> ''rpc'' then discoveredTables @ [base_table tableName]
                     else discoveredTables
                 | None \<Rightarrow> discoveredTables)
              [] (Object_keys (get_member schema ''paths''))
      else [])"

text \<open>
  One probe of methods 2 and 4: a \<^verbatim>\<open>select('*').limit(1)\<close> on the name, accepted when
  the answer carries no error; a rejection is caught and ignored. The state is the
  list \<^verbatim>\<open>discoveredTables\<close> and the requests the running method has issued; \<open>h\<close> holds
  the requests issued before the method started.
\<close>

definition probe ::
  "service \<Rightarrow> request list \<Rightarrow> TableInfo list \<times> request list \<Rightarrow> string
     \<Rightarrow> TableInfo list \<times> request list" where
  "probe svc h st tableName =
     (case st of (discoveredTables, calls) \<Rightarrow>
        (case query svc (h @ calls) (SelectLimit tableName 1) of
           Fulfilled r \<Rightarrow>
             if error r = None then discoveredTables @ [base_table tableName]
             else discoveredTables
         | Rejected e \<Rightarrow> discoveredTables,
         calls @ [SelectLimit tableName 1]))"

definition potentialTables :: "string list" where
  "potentialTables =
     [''users'', ''profiles'', ''posts'', ''comments'', ''products'', ''orders'', ''todos'',
      ''items'', ''categories'', ''tags'', ''files'', ''uploads'', ''settings'',
      ''notifications'', ''messages'', ''events'', ''bookings'', ''payments'', ''invoices'',
      ''customers'', ''suppliers'', ''inventory'', ''articles'', ''pages'', ''media'',
      ''galleries'', ''reviews'', ''ratings'', ''favorites'', ''subscriptions'', ''plans'',
      ''transactions'', ''logs'', ''analytics'', ''reports'', ''teams'', ''organizations'',
      ''projects'', ''tasks'', ''issues'', ''milestones'', ''contacts'', ''addresses'',
      ''phones'', ''emails'', ''documents'', ''attachments'']"

text \<open>Method 2: the dictionary of common names.\<close>

definition dictionary ::
  "service \<Rightarrow> request list \<Rightarrow> TableInfo list \<Rightarrow> TableInfo list \<times> request list" where
  "dictionary svc h discoveredTables =
     foldl (probe svc h) (discoveredTables, []) potentialTables"

definition commonPrefixes :: "string list" where
  "commonPrefixes = ['''', ''app_'', ''user_'', ''admin_'', ''public_'', ''data_'']"

definition commonSuffixes :: "string list" where
  "commonSuffixes = ['''', ''s'', ''_data'', ''_info'', ''_details'', ''_records'']"

definition commonWords :: "string list" where
  "commonWords =
     [''a'', ''b'', ''c'', ''d'', ''e'', ''f'', ''g'', ''h'', ''i'', ''j'', ''k'', ''l'', ''m'',
      ''n'', ''o'', ''p'', ''q'', ''r'', ''s'', ''t'', ''u'', ''v'', ''w'', ''x'', ''y'', ''z'',
      ''data'', ''info'', ''list'', ''item'', ''record'', ''entry'', ''log'', ''event'',
      ''action'', ''status'', ''type'', ''kind'', ''group'', ''set'']"

text \<open>Method 4: the three nested loops over prefix, word and suffix.\<close>

definition brute_force ::
  "service \<Rightarrow> request list \<Rightarrow> TableInfo list \<Rightarrow> TableInfo list \<times> request list" where
  "brute_force svc h discoveredTables =
     foldl (\<lambda>st prefix.
        foldl (\<lambda>st word.
           foldl (\<lambda>st suffix.
              let tableName = prefix @ word @ suffix in
              if 0 < length tableName \<and> length tableName \<le> 20
              then probe svc h st tableName
              else st)
            st commonSuffixes)
          st commonWords)
       (discoveredTables, []) commonPrefixes"

text \<open>\<^verbatim>\<open>Array.prototype.findIndex\<close> and \<^verbatim>\<open>filter\<close> with the element's index.\<close>

fun findIndex :: "('a \<Rightarrow> bool) \<Rightarrow> 'a list \<Rightarrow> int" where
  "findIndex p [] = - 1"
| "findIndex p (x # xs) =
     (if p x then 0 else (let i = findIndex p xs in if i < 0 then - 1 else i + 1))"

fun filter_indexed :: "('a \<Rightarrow> nat \<Rightarrow> bool) \<Rightarrow> nat \<Rightarrow> 'a list \<Rightarrow> 'a list" where
  "filter_indexed f i [] = []"
| "filter_indexed f i (x # xs) =
     (if f x i then x # filter_indexed f (Suc i) xs else filter_indexed f (Suc i) xs)"

definition uniqueTables :: "TableInfo list \<Rightarrow> TableInfo list" where
  "uniqueTables discoveredTables =
     filter_indexed
       (\<lambda>table index.
          int index = findIndex (\<lambda>t. table_name t = table_name table) discoveredTables)
       0 discoveredTables"

text \<open>
  The outcome of a run: what the caller receives (the message of the thrown error, or
  the tables), the value of \<^verbatim>\<open>discoveredTables\<close> before duplicates are removed, and the
  requests each method issued.
\<close>

record discovery =
  result :: "string + TableInfo list"
  discovered :: "TableInfo list"
  schema_calls :: "request list"
  dictionary_calls :: "request list"
  introspection_calls :: "request list"
  brute_calls :: "request list"

definition failed :: "thrown \<Rightarrow> request list \<Rightarrow> discovery" where
  "failed err calls =
     \<lparr>result = Inl (''Failed to load tables: '' @ err_message err), discovered = [],
      schema_calls = calls, dictionary_calls = [], introspection_calls = [],
      brute_calls = []\<rparr>"

text \<open>
  The TypeError that reading \<^verbatim>\<open>schema.paths\<close> throws when the document is \<^verbatim>\<open>null\<close> or
  \<^verbatim>\<open>undefined\<close>; the wording of its message is the engine's (here V8's).
\<close>

definition paths_type_error :: "jsval \<Rightarrow> thrown" where
  "paths_type_error schema =
     Error (''Cannot read properties of '' @
            (if schema = JNull then ''null'' else ''undefined'') @
            '' (reading '' @ [sq] @ ''paths'' @ [sq] @ '')'')"

text \<open>Methods 1 to 4 on a fetched document, each guarded by \<^verbatim>\<open>discoveredTables.length === 0\<close>.\<close>

definition discover :: "service \<Rightarrow> jsval \<Rightarrow> discovery" where
  "discover svc schema =
     (let d1 = parse_paths schema;
          h1 = [FetchRoot];
          (d2, calls2) = (if length d1 = 0 then dictionary svc h1 d1 else (d1, []));
          h2 = h1 @ calls2;
          calls3 = (if length d2 = 0 then [FetchIntrospection] else []);
          h3 = h2 @ calls3;
          (d4, calls4) = (if length d2 = 0 then brute_force svc h3 d2 else (d2, []))
      in \<lparr>result = Inr (uniqueTables d4), discovered = d4,
          schema_calls = h1, dictionary_calls = calls2, introspection_calls = calls3,
          brute_calls = calls4\<rparr>)"

text \<open>
  \<^verbatim>\<open>getTables\<close>. The argument is \<open>None\<close> while the hook holds no client or connection.
  Every error thrown inside the \<^verbatim>\<open>try\<close> block is rethrown as
  \<^verbatim>\<open>Failed to load tables: ...\<close>.
\<close>

definition getTables :: "service option \<Rightarrow> discovery" where
  "getTables client =
     (case client of
        None \<Rightarrow>
          \<lparr>result = Inl ''Not connected'', discovered = [], schema_calls = [],
           dictionary_calls = [], introspection_calls = [], brute_calls = []\<rparr>
      | Some svc \<Rightarrow>
          (case fetch svc [] FetchRoot of
             Rejected err \<Rightarrow> failed err [FetchRoot]
           | Fulfilled response \<Rightarrow>
               if \<not> ok response
               then failed (Error (''Failed to fetch schema: '' @ nat_to_string (status response)))
                      [FetchRoot]
               else
                 (case json response of
                    Rejected err \<Rightarrow> failed err [FetchRoot]
                  | Fulfilled schema \<Rightarrow>
                      if schema = JNull \<or> schema = JUndefined
                      then failed (paths_type_error schema) [FetchRoot]
                      else discover svc schema)))"

section \<open>Schema inference: \<^verbatim>\<open>getColumns\<close>\<close>

record ColumnInfo =
  column_name :: string
  data_type :: string
  is_nullable :: string
  column_default :: "string option"
  ordinal_position :: nat

text \<open>\<^verbatim>\<open>Array.prototype.map\<close> with the element's index.\<close>

fun map_indexed :: "('a \<Rightarrow> nat \<Rightarrow> 'b) \<Rightarrow> nat \<Rightarrow> 'a list \<Rightarrow> 'b list" where
  "map_indexed f i [] = []"
| "map_indexed f i (x # xs) = f x i # map_indexed f (Suc i) xs"

definition infer_columns :: "jsobj \<Rightarrow> ColumnInfo list" where
  "infer_columns sampleRow =
     map_indexed
       (\<lambda>key index.
          \<lparr>column_name = key,
           data_type = inferDataType (get_member (JObj sampleRow) key),
           is_nullable = ''YES'',
           column_default = None,
           ordinal_position = index + 1\<rparr>)
       0 (Object_keys (JObj sampleRow))"

definition columns_failed :: "thrown \<Rightarrow> string + ColumnInfo list" where
  "columns_failed err = Inl (''Failed to load columns: '' @ err_message err)"

text \<open>
  \<^verbatim>\<open>getColumns\<close>: the outcome and the requests issued. Every error thrown inside the
  \<^verbatim>\<open>try\<close> block is rethrown as \<^verbatim>\<open>Failed to load columns: ...\<close>.
\<close>

definition getColumns ::
  "service option \<Rightarrow> string \<Rightarrow> (string + ColumnInfo list) \<times> request list" where
  "getColumns client tableName =
     (case client of
        None \<Rightarrow> (Inl ''Not connected'', [])
      | Some svc \<Rightarrow>
          (case query svc [] (SelectLimit tableName 1) of
             Rejected err \<Rightarrow> (columns_failed err, [SelectLimit tableName 1])
           | Fulfilled sample \<Rightarrow>
               (case error sample of
                  Some sampleError \<Rightarrow>
                    (columns_failed
                       (Error (''Cannot access table '' @ dq @ tableName @ dq @ '': '' @
                               message sampleError)),
                     [SelectLimit tableName 1])
                | None \<Rightarrow>
                    (case data sample of
                       Some (sampleRow # rest) \<Rightarrow>
                         (Inr (infer_columns sampleRow), [SelectLimit tableName 1])
                     | _ \<Rightarrow>
                         (case query svc [SelectLimit tableName 1] (SelectLimit tableName 0) of
                            Rejected err \<Rightarrow>
                              (columns_failed err,
                               [SelectLimit tableName 1, SelectLimit tableName 0])
                          | Fulfilled emptyAnswer \<Rightarrow>
                              if error emptyAnswer = None \<and> data emptyAnswer \<noteq> None
                              then (Inr [], [SelectLimit tableName 1, SelectLimit tableName 0])
                              else
                                (columns_failed
                                   (Error (''Table '' @ dq @ tableName @ dq @
                                      '' appears to be empty and column structure cannot be determined'')),
                                 [SelectLimit tableName 1, SelectLimit tableName 0]))))))"

section \<open>Record access: \<^verbatim>\<open>insertRow\<close> and \<^verbatim>\<open>updateRow\<close>\<close>

text \<open>
  The assignment \<^verbatim>\<open>acc[key] = value\<close> on an object created by \<^verbatim>\<open>{}\<close>: the own property is
  updated, or added after the existing ones. The name \<^verbatim>\<open>__proto__\<close> is the exception: the
  object has no own property of that name, so the assignment reaches the setter that
  \<^verbatim>\<open>Object.prototype\<close> defines for it, which changes the prototype (or nothing) and adds no
  own property. (The keys of an object are distinct, so the reduce below assigns each
  name once.)
\<close>

fun put_own :: "jsobj \<Rightarrow> string \<Rightarrow> jsval \<Rightarrow> jsobj" where
  "put_own [] key v = [(key, v)]"
| "put_own ((k, w) # ps) key v = (if k = key then (k, v) # ps else (k, w) # put_own ps key v)"

definition assign :: "jsobj \<Rightarrow> string \<Rightarrow> jsval \<Rightarrow> jsobj" where
  "assign acc key v = (if key = ''__proto__'' then acc else put_own acc key v)"

text \<open>\<^verbatim>\<open>Object.entries(rowData).reduce(..., {})\<close>, which builds \<^verbatim>\<open>cleanedData\<close>.\<close>

definition cleanedData :: "jsobj \<Rightarrow> jsobj" where
  "cleanedData rowData =
     foldl (\<lambda>acc (key, v). if v = JStr '''' then assign acc key JNull else assign acc key v)
       [] rowData"

definition write_outcome :: "string \<Rightarrow> query_response settled \<Rightarrow> string + unit" where
  "write_outcome context answer =
     (case answer of
        Rejected err \<Rightarrow> Inl (context @ err_message err)
      | Fulfilled r \<Rightarrow>
          (case error r of
             Some e \<Rightarrow>
               Inl (context @ (if instanceof_Error e then message e else ''Unknown error''))
           | None \<Rightarrow> Inr ()))"

definition insertRow :: "service option \<Rightarrow> string \<Rightarrow> jsobj \<Rightarrow> (string + unit) \<times> request list" where
  "insertRow client tableName rowData =
     (case client of
        None \<Rightarrow> (Inl ''Not connected'', [])
      | Some svc \<Rightarrow>
          (write_outcome ''Failed to insert row: ''
             (query svc [] (Insert tableName (cleanedData rowData))),
           [Insert tableName (cleanedData rowData)]))"

definition updateRow ::
  "service option \<Rightarrow> string \<Rightarrow> jsobj \<Rightarrow> string \<Rightarrow> jsval \<Rightarrow> (string + unit) \<times> request list" where
  "updateRow client tableName rowData primaryKey keyValue =
     (case client of
        None \<Rightarrow> (Inl ''Not connected'', [])
      | Some svc \<Rightarrow>
          (write_outcome ''Failed to update row: ''
             (query svc [] (Update tableName (cleanedData rowData) primaryKey keyValue)),
           [Update tableName (cleanedData rowData) primaryKey keyValue]))"

section \<open>SQL export: the data rows of \<^verbatim>\<open>generateSQLExport\<close>\<close>

text \<open>
  Two built-in functions are parameters of the model: \<^verbatim>\<open>JSON.stringify\<close>, and \<^verbatim>\<open>String\<close> on
  the values the model does not render itself. \<^verbatim>\<open>String\<close> of a number prints the shortest
  digits that read back as the same double. For an integer below \<open>2\<^sup>5\<^sup>3\<close> in magnitude
  (up to \<^verbatim>\<open>Number.MAX_SAFE_INTEGER\<close>) these are all the digits of its decimal numeral,
  which the model computes; a larger number may print with fewer digits, followed by
  zeros or an exponent, and is left to the parameter, as is a fraction. \<^verbatim>\<open>String\<close> of
  a BigInt is its decimal numeral. The values of an exported row were parsed from JSON,
  and on such objects and arrays \<^verbatim>\<open>JSON.stringify\<close> returns a text.
\<close>

record builtins =
  JSON_stringify :: "jsval \<Rightarrow> string"
  String_other :: "jsval \<Rightarrow> string"

definition js_String :: "builtins \<Rightarrow> jsval \<Rightarrow> string" where
  "js_String rt v =
     (case v of
        JNum (Fin q) \<Rightarrow>
          if Number_isInteger (Fin q) \<and> \<bar>q\<bar> < 2 ^ 53 then int_to_string \<lfloor>q\<rfloor>
          else String_other rt v
      | JBigInt i \<Rightarrow> int_to_string i
      | _ \<Rightarrow> String_other rt v)"

text \<open>\<^verbatim>\<open>val.replace(/'/g, "''")\<close>\<close>

definition replace_quotes :: "string \<Rightarrow> string" where
  "replace_quotes s = concat (map (\<lambda>c. if c = sq then [sq, sq] else [c]) s)"

text \<open>\<^verbatim>\<open>Array.prototype.join\<close>\<close>

fun join :: "string \<Rightarrow> string list \<Rightarrow> string" where
  "join sep [] = []"
| "join sep [x] = x"
| "join sep (x # y # zs) = x @ sep @ join sep (y # zs)"

text \<open>The encoding of one value of a row.\<close>

definition sql_value :: "builtins \<Rightarrow> jsval \<Rightarrow> string" where
  "sql_value rt val =
     (if val = JNull \<or> val = JUndefined then ''NULL''
      else if typeof val = TString then
        (case val of JStr s \<Rightarrow> [sq] @ replace_quotes s @ [sq] | _ \<Rightarrow> [])
      else if typeof val = TBoolean then
        (case val of JBool b \<Rightarrow> if b then ''TRUE'' else ''FALSE'' | _ \<Rightarrow> [])
      else if typeof val = TObject then [sq] @ replace_quotes (JSON_stringify rt val) @ [sq]
      else js_String rt val)"

definition insert_statement :: "builtins \<Rightarrow> string \<Rightarrow> jsobj \<Rightarrow> string" where
  "insert_statement rt tableName row =
     (let columns = join '', '' (map (\<lambda>col. dq @ col @ dq) (map fst row));
          vals = join '', '' (map (sql_value rt) (map snd row))
      in ''INSERT INTO '' @ dq @ tableName @ dq @ '' ('' @ columns @ '') VALUES ('' @ vals @
         '');'' @ nl)"

text \<open>
  \<^verbatim>\<open>tableInfo.data.forEach((row, index) => ...)\<close>: each row appends its statement to
  \<^verbatim>\<open>sql\<close>, and every hundredth row a progress comment.
\<close>

fun export_rows :: "builtins \<Rightarrow> string \<Rightarrow> nat \<Rightarrow> jsobj list \<Rightarrow> string \<Rightarrow> string" where
  "export_rows rt tableName index [] sql = sql"
| "export_rows rt tableName index (row # rows) sql =
     export_rows rt tableName (index + 1) rows
       (let sql1 = sql @ insert_statement rt tableName row
        in if (index + 1) mod 100 = 0
           then sql1 @ ''-- Inserted '' @ nat_to_string (index + 1) @ '' rows so far...'' @ nl
           else sql1)"

text \<open>
  The data block of one table: \<^verbatim>\<open>tableInfo.data\<close> is \<open>None\<close> when it is undefined, and
  otherwise the array of rows that was fetched.
\<close>

definition export_data ::
  "builtins \<Rightarrow> bool \<Rightarrow> string \<Rightarrow> jsobj list option \<Rightarrow> string \<Rightarrow> string" where
  "export_data rt includeData tableName tableData sql =
     (case tableData of
        Some rows \<Rightarrow>
          if includeData \<and> 0 < length rows
          then export_rows rt tableName 0 rows
                 (sql @ ''-- Data for table: '' @ tableName @ '' ('' @
                    nat_to_string (length rows) @ '' rows)'' @ nl) @ nl
          else sql
      | None \<Rightarrow> sql)"

text \<open>The progress comment that follows every hundredth row.\<close>

definition progress_comment :: "nat \<Rightarrow> string" where
  "progress_comment n =
     (if n mod 100 = 0 then ''-- Inserted '' @ nat_to_string n @ '' rows so far...'' @ nl else [])"

section \<open>SQL import: \<^verbatim>\<open>executeSQL\<close> and \<^verbatim>\<open>importSQLData\<close>\<close>

text \<open>\<^verbatim>\<open>String.prototype.split\<close> with a separator of one character.\<close>

fun split_on :: "char \<Rightarrow> string \<Rightarrow> string list" where
  "split_on sep [] = [[]]"
| "split_on sep (c # cs) =
     (if c = sep then [] # split_on sep cs
      else (case split_on sep cs of
              x # xs \<Rightarrow> (c # x) # xs
            | [] \<Rightarrow> [[c]]))"

text \<open>
  \<^verbatim>\<open>String.prototype.trim\<close> removes white space and line terminators at both ends; among
  the code units below 256 these are tab, line feed, vertical tab, form feed, carriage
  return, space and the no-break space.
\<close>

definition is_space :: "char \<Rightarrow> bool" where
  "is_space c = (c \<in> set [CHR 0x09, CHR 0x0A, CHR 0x0B, CHR 0x0C, CHR 0x0D, CHR 0x20, CHR 0xA0])"

definition trim :: "string \<Rightarrow> string" where
  "trim s = rev (dropWhile is_space (rev (dropWhile is_space s)))"

definition startsWith :: "string \<Rightarrow> string \<Rightarrow> bool" where
  "startsWith s p = (take (length p) s = p)"

definition sql_statements :: "string \<Rightarrow> string list" where
  "sql_statements sqlContent =
     filter (\<lambda>stmt. 0 < length stmt \<and> \<not> startsWith stmt ''--'')
       (map trim (split_on CHR '';'' sqlContent))"

text \<open>
  \<^verbatim>\<open>executeSQL\<close> of the hook: without a client it throws \<^verbatim>\<open>Not connected\<close>; with one, its
  \<^verbatim>\<open>try\<close> block throws and the \<^verbatim>\<open>catch\<close> rethrows with a prefix.
\<close>

definition executeSQL :: "service option \<Rightarrow> string \<Rightarrow> jsval settled" where
  "executeSQL client sqlQuery =
     (case client of
        None \<Rightarrow> Rejected (Error ''Not connected'')
      | Some svc \<Rightarrow>
          Rejected
            (Error (''SQL execution not available: '' @
               err_message
                 (Error ''Direct SQL execution requires custom database functions. Please use the table interface instead.''))))"

record sql_import =
  statementsExecuted :: nat
  errors :: "string list"

text \<open>\<^verbatim>\<open>importSQLData\<close> of the import view, which receives \<^verbatim>\<open>executeSQL\<close> as a property.\<close>

definition importSQLData :: "(string \<Rightarrow> jsval settled) \<Rightarrow> string \<Rightarrow> sql_import" where
  "importSQLData exec sqlContent =
     foldl (\<lambda>results statement.
              case exec statement of
                Fulfilled v \<Rightarrow>
                  results\<lparr>statementsExecuted := statementsExecuted results + 1\<rparr>
              | Rejected err \<Rightarrow>
                  results\<lparr>errors := errors results @ [''SQL Error: '' @ err_message err]\<rparr>)
       \<lparr>statementsExecuted = 0, errors = []\<rparr>
       (sql_statements sqlContent)"

section \<open>The specification's vocabulary\<close>

text \<open>
  The mapping as the specification words it: character kinds, the canonical
  8-4-4-4-12 form of a UUID, the date-time prefix \<^verbatim>\<open>YYYY-MM-DDTHH:MM:SS\<close>, and an
  integer-valued number.
\<close>

definition between :: "char \<Rightarrow> char \<Rightarrow> char \<Rightarrow> bool" where
  "between lo hi c = (lo \<le> c \<and> c \<le> hi)"

definition is_digit :: "char \<Rightarrow> bool" where
  "is_digit c = between CHR ''0'' CHR ''9'' c"

definition is_letter :: "char \<Rightarrow> bool" where
  "is_letter c = (between CHR ''a'' CHR ''z'' c \<or> between CHR ''A'' CHR ''Z'' c)"

definition is_hex :: "char \<Rightarrow> bool" where
  "is_hex c = (is_digit c \<or> between CHR ''a'' CHR ''f'' c \<or> between CHR ''A'' CHR ''F'' c)"

definition canonical_uuid :: "string \<Rightarrow> bool" where
  "canonical_uuid s =
     (length s = 36 \<and>
      list_all is_hex (take 8 s) \<and> s ! 8 = CHR ''-'' \<and>
      list_all is_hex (take 4 (drop 9 s)) \<and> s ! 13 = CHR ''-'' \<and>
      list_all is_hex (take 4 (drop 14 s)) \<and> s ! 18 = CHR ''-'' \<and>
      list_all is_hex (take 4 (drop 19 s)) \<and> s ! 23 = CHR ''-'' \<and>
      list_all is_hex (take 12 (drop 24 s)))"

definition datetime_prefix :: "string \<Rightarrow> bool" where
  "datetime_prefix s =
     (19 \<le> length s \<and>
      list_all is_digit (take 4 s) \<and> s ! 4 = CHR ''-'' \<and>
      list_all is_digit (take 2 (drop 5 s)) \<and> s ! 7 = CHR ''-'' \<and>
      list_all is_digit (take 2 (drop 8 s)) \<and> s ! 10 = CHR ''T'' \<and>
      list_all is_digit (take 2 (drop 11 s)) \<and> s ! 13 = CHR '':'' \<and>
      list_all is_digit (take 2 (drop 14 s)) \<and> s ! 16 = CHR '':'' \<and>
      list_all is_digit (take 2 (drop 17 s)))"

fun integer_valued :: "jsnum \<Rightarrow> bool" where
  "integer_valued (Fin q) = (q \<in> \<int>)"
| "integer_valued NaN = False"
| "integer_valued PosInf = False"
| "integer_valued NegInf = False"

text \<open>
  An identifier is a letter or underscore followed by letters, digits or underscores; a
  table candidate is a slash followed by an identifier other than \<^verbatim>\<open>rpc\<close>.
\<close>

definition is_identifier :: "string \<Rightarrow> bool" where
  "is_identifier s =
     (case s of
        [] \<Rightarrow> False
      | c # cs \<Rightarrow>
          (is_letter c \<or> c = CHR ''_'') \<and>
          list_all (\<lambda>d. is_letter d \<or> is_digit d \<or> d = CHR ''_'') cs)"

definition table_candidate :: "string \<Rightarrow> bool" where
  "table_candidate path =
     (case path of
        [] \<Rightarrow> False
      | c # ident \<Rightarrow> c = CHR ''/'' \<and> is_identifier ident \<and> ident \<noteq> ''rpc'')"

text \<open>Each table name once, the first occurrence kept.\<close>

fun first_wins :: "TableInfo list \<Rightarrow> TableInfo list" where
  "first_wins [] = []"
| "first_wins (t # ts) = t # first_wins (filter (\<lambda>u. table_name u \<noteq> table_name t) ts)"

text \<open>
  The schema document of a service, when there is one that method 1 can read: the
  initial fetch is fulfilled with a success status and its body parses to a value other
  than \<^verbatim>\<open>null\<close>.
\<close>

definition fetched_document :: "service \<Rightarrow> jsval option" where
  "fetched_document svc =
     (case fetch svc [] FetchRoot of
        Rejected err \<Rightarrow> None
      | Fulfilled response \<Rightarrow>
          if ok response then
            (case json response of
               Rejected err \<Rightarrow> None
             | Fulfilled schema \<Rightarrow>
                 if schema = JNull \<or> schema = JUndefined then None else Some schema)
          else None)"

text \<open>The cross product of prefixes, words and suffixes, in loop order.\<close>

definition candidates :: "string list" where
  "candidates = [p @ w @ s. p \<leftarrow> commonPrefixes, w \<leftarrow> commonWords, s \<leftarrow> commonSuffixes]"

abbreviation probe_request :: "string \<Rightarrow> request" where
  "probe_request tableName \<equiv> SelectLimit tableName 1"

section \<open>Sample services\<close>

text \<open>
  Concrete services on which the theorems are instantiated: one whose schema document
  lists tables, one with an empty document that grants access to the given names only,
  one whose schema fetch answers 503, one that denies every query, and one that answers
  its first query with no row and every later one with an error.
\<close>

definition ok_response :: "jsval \<Rightarrow> http_response" where
  "ok_response doc = \<lparr>ok = True, status = 200, json = Fulfilled doc\<rparr>"

definition no_rows :: query_response where
  "no_rows = \<lparr>data = Some [], error = None\<rparr>"

definition not_found :: query_response where
  "not_found = \<lparr>data = None, error = Some (PgError ''relation does not exist'' False)\<rparr>"

definition openapi_document :: jsval where
  "openapi_document =
     JObj [(''swagger'', JStr ''2.0''),
           (''paths'', JObj [(''/'', JObj []), (''/users'', JObj []), (''/rpc/now'', JObj []),
                             (''/order_items'', JObj [])])]"

definition openapi_service :: service where
  "openapi_service =
     \<lparr>fetch = (\<lambda>h r. Fulfilled (ok_response openapi_document)),
      query = (\<lambda>h r. Fulfilled no_rows)\<rparr>"

definition bare_service :: "string list \<Rightarrow> service" where
  "bare_service names =
     \<lparr>fetch = (\<lambda>h r. Fulfilled (ok_response (JObj []))),
      query = (\<lambda>h r. case r of
                 SelectLimit n k \<Rightarrow> Fulfilled (if n \<in> set names then no_rows else not_found)
               | _ \<Rightarrow> Rejected NotError)\<rparr>"

definition unavailable_service :: service where
  "unavailable_service =
     \<lparr>fetch = (\<lambda>h r. Fulfilled \<lparr>ok = False, status = 503, json = Rejected NotError\<rparr>),
      query = (\<lambda>h r. Rejected (Error ''Failed to fetch''))\<rparr>"

definition denied_service :: service where
  "denied_service =
     \<lparr>fetch = (\<lambda>h r. Fulfilled (ok_response (JObj []))),
      query = (\<lambda>h r. Fulfilled
                 \<lparr>data = None, error = Some (PgError ''permission denied for table t'' False)\<rparr>)\<rparr>"

definition fading_service :: service where
  "fading_service =
     \<lparr>fetch = (\<lambda>h r. Fulfilled (ok_response (JObj []))),
      query = (\<lambda>h r. Fulfilled (if h = [] then no_rows else not_found))\<rparr>"

section \<open>Facts about the matcher\<close>

lemmas char_kinds = is_digit_def is_letter_def is_hex_def between_def

lemma match_here_Times:
  "match_here ic (Times cls n # ps) s =
     (if n \<le> length s \<and> list_all (class_accepts ic cls) (take n s)
      then match_here ic ps (drop n s) else None)"
proof (induction n arbitrary: s)
  case 0
  show ?case by simp
next
  case (Suc n)
  show ?case by (cases s) (simp_all add: Suc.IH)
qed

lemma regex_test_Times:
  "regex_test ic (Times cls n # ps) s \<longleftrightarrow>
     n \<le> length s \<and> list_all (class_accepts ic cls) (take n s) \<and>
     regex_test ic ps (drop n s)"
  by (auto simp: regex_test_def match_here_Times)

lemma regex_test_End: "regex_test ic [EndAnchor] s \<longleftrightarrow> s = []"
  by (simp add: regex_test_def)

lemma regex_test_Nil: "regex_test ic [] s"
  by (simp add: regex_test_def)

lemma regex_test_Star_End:
  "regex_test ic [Star cls, EndAnchor] s \<longleftrightarrow> list_all (class_accepts ic cls) s"
  unfolding regex_test_def
  by (induction s) (auto split: option.splits)

lemma of_char_to_lower:
  "(of_char (to_lower c) :: nat) =
     (if 65 \<le> (of_char c :: nat) \<and> (of_char c :: nat) \<le> 90 then of_char c + 32 else of_char c)"
  by (simp add: to_lower_def less_eq_char_def)

lemma of_char_to_upper:
  "(of_char (to_upper c) :: nat) =
     (if 97 \<le> (of_char c :: nat) \<and> (of_char c :: nat) \<le> 122 then of_char c - 32 else of_char c)"
  by (auto simp: to_upper_def less_eq_char_def)

lemma char_eq_nat: "(c = d) = ((of_char c :: nat) = of_char d)"
  by (metis char_of_char)

lemma accepts_hex: "class_accepts True hex_lower = is_hex"
  unfolding class_accepts_def in_class_def hex_lower_def char_kinds
  by (rule ext) (simp add: less_eq_char_def of_char_to_lower of_char_to_upper, arith)

lemma accepts_digit: "class_accepts False digit = is_digit"
  by (rule ext) (simp add: class_accepts_def in_class_def digit_def char_kinds)

lemma accepts_dash_icase: "class_accepts True [Single CHR ''-''] c = (c = CHR ''-'')"
  unfolding class_accepts_def in_class_def
  by (simp add: char_eq_nat [of _ "CHR ''-''"] of_char_to_lower of_char_to_upper) arith

lemma accepts_single: "class_accepts False [Single d] c = (c = d)"
  by (simp add: class_accepts_def in_class_def)

lemma list_all_single: "list_all P (take (Suc 0) (drop n s)) = (n < length s \<longrightarrow> P (s ! n))"
  by (cases "n < length s") (simp_all add: take_Suc hd_drop_conv_nth)

lemma le_length_drop: "0 < n \<Longrightarrow> n \<le> length (drop k s) \<longleftrightarrow> k + n \<le> length s"
  by auto

lemma uuid_re_iff: "regex_test True uuid_re s = canonical_uuid s"
  unfolding uuid_re_def canonical_uuid_def
  apply (simp only: regex_test_Times regex_test_End)
  apply (simp add: accepts_hex list_all_single accepts_dash_icase le_length_drop
      del: length_drop)
  apply (cases "length s = 36")
   apply simp_all
  done

lemma timestamp_re_iff: "regex_test False timestamp_re s = datetime_prefix s"
  unfolding timestamp_re_def datetime_prefix_def
  apply (simp only: regex_test_Times regex_test_Nil)
  apply (simp add: accepts_digit list_all_single accepts_single le_length_drop
      del: length_drop)
  apply (cases "19 \<le> length s")
   apply simp_all
  done

lemma Number_isInteger_iff: "Number_isInteger n = integer_valued n"
  by (cases n) (auto simp: Ints_def)

section \<open>The type mapping of schema inference\<close>

text \<open>
  C2. The inferred type is a function of the sampled value alone, decided in this order:
  null or undefined gives text; a boolean gives boolean; a number gives integer when it
  is integer-valued and numeric otherwise; a string gives uuid when it has the canonical
  8-4-4-4-12 hexadecimal form in either case, timestamp with time zone when it starts
  with \<^verbatim>\<open>YYYY-MM-DDTHH:MM:SS\<close>, and text otherwise; an array or object gives jsonb;
  every other value gives text. The eight sample values of the specification map to
  text, boolean, integer, numeric, text, uuid, timestamp with time zone and jsonb.
\<close>

theorem inferDataType_mapping:
  "inferDataType JNull = ''text''
   \<and> inferDataType JUndefined = ''text''
   \<and> inferDataType (JBool b) = ''boolean''
   \<and> inferDataType (JNum n) = (if integer_valued n then ''integer'' else ''numeric'')
   \<and> inferDataType (JStr s) =
       (if canonical_uuid s then ''uuid''
        else if datetime_prefix s then ''timestamp with time zone''
        else ''text'')
   \<and> inferDataType (JArr xs) = ''jsonb''
   \<and> inferDataType (JObj kvs) = ''jsonb''
   \<and> inferDataType (JBigInt i) = ''text''
   \<and> inferDataType (JSymbol d) = ''text''
   \<and> inferDataType (JFunction src) = ''text''
   \<and> map inferDataType
        [JNull, JBool True, JNum (Fin 3), JNum (Fin 3.5), JStr ''hello'',
         JStr ''a1b2c3d4-e5f6-7890-abcd-ef1234567890'', JStr ''2024-01-01T00:00:00'',
         JObj [(''a'', JNum (Fin 1))]]
       = [''text'', ''boolean'', ''integer'', ''numeric'', ''text'', ''uuid'',
          ''timestamp with time zone'', ''jsonb'']"
proof -
  have str: "inferDataType (JStr t) =
       (if canonical_uuid t then ''uuid''
        else if datetime_prefix t then ''timestamp with time zone''
        else ''text'')" for t
    by (simp add: inferDataType_def uuid_re_iff timestamp_re_iff)
  have num: "inferDataType (JNum m) = (if integer_valued m then ''integer'' else ''numeric'')"
    for m
    by (simp add: inferDataType_def Number_isInteger_iff)
  have hello: "inferDataType (JStr ''hello'') = ''text''"
    by (simp add: str canonical_uuid_def datetime_prefix_def)
  have uuid: "inferDataType (JStr ''a1b2c3d4-e5f6-7890-abcd-ef1234567890'') = ''uuid''"
    by (simp add: str canonical_uuid_def char_kinds)
  have stamp: "inferDataType (JStr ''2024-01-01T00:00:00'') = ''timestamp with time zone''"
    by (simp add: str canonical_uuid_def datetime_prefix_def char_kinds)
  have three: "inferDataType (JNum (Fin 3)) = ''integer''"
    by (simp add: num)
  have half: "inferDataType (JNum (Fin 3.5)) = ''numeric''"
    by (simp add: num)
  have samples: "map inferDataType
        [JNull, JBool True, JNum (Fin 3), JNum (Fin 3.5), JStr ''hello'',
         JStr ''a1b2c3d4-e5f6-7890-abcd-ef1234567890'', JStr ''2024-01-01T00:00:00'',
         JObj [(''a'', JNum (Fin 1))]]
       = [''text'', ''boolean'', ''integer'', ''numeric'', ''text'', ''uuid'',
          ''timestamp with time zone'', ''jsonb'']"
    by (simp only: list.map hello uuid stamp three half)
      (simp add: inferDataType_def)
  have rest: "inferDataType JNull = ''text'' \<and> inferDataType JUndefined = ''text''
      \<and> inferDataType (JBool b) = ''boolean'' \<and> inferDataType (JArr xs) = ''jsonb''
      \<and> inferDataType (JObj kvs) = ''jsonb'' \<and> inferDataType (JBigInt i) = ''text''
      \<and> inferDataType (JSymbol d) = ''text'' \<and> inferDataType (JFunction src) = ''text''"
    by (simp add: inferDataType_def)
  from rest str [of s] num [of n] samples show ?thesis
    by blast
qed
section \<open>Facts about table discovery\<close>

lemma accepts_ident_start:
  "class_accepts False [Range CHR ''a'' CHR ''z'', Range CHR ''A'' CHR ''Z'', Single CHR ''_''] c
     = (is_letter c \<or> c = CHR ''_'')"
  by (auto simp: class_accepts_def in_class_def char_kinds)

lemma accepts_ident_char:
  "class_accepts False
      [Range CHR ''a'' CHR ''z'', Range CHR ''A'' CHR ''Z'', Range CHR ''0'' CHR ''9'',
       Single CHR ''_'']
     = (\<lambda>d. is_letter d \<or> is_digit d \<or> d = CHR ''_'')"
  by (rule ext) (auto simp: class_accepts_def in_class_def char_kinds)

lemma table_path_re_iff:
  "regex_test False table_path_re path \<longleftrightarrow>
     (case path of [] \<Rightarrow> False | c # ident \<Rightarrow> c = CHR ''/'' \<and> is_identifier ident)"
proof (cases path)
  case Nil
  then show ?thesis
    by (simp add: table_path_re_def regex_test_Times)
next
  case (Cons c ident)
  show ?thesis
  proof (cases ident)
    case Nil
    with Cons show ?thesis
      by (simp add: table_path_re_def regex_test_Times is_identifier_def)
  next
    case (Cons d cs)
    with \<open>path = c # ident\<close> show ?thesis
      by (simp add: table_path_re_def regex_test_Times regex_test_Star_End
          is_identifier_def accepts_single accepts_ident_start accepts_ident_char)
  qed
qed

lemma foldl_push:
  "foldl (\<lambda>acc x. case g x of Some y \<Rightarrow> if P y then acc @ [f y] else acc | None \<Rightarrow> acc) acc0 xs
     = acc0 @ map (\<lambda>x. f (the (g x))) (filter (\<lambda>x. case g x of Some y \<Rightarrow> P y | None \<Rightarrow> False) xs)"
  by (induction xs arbitrary: acc0) (auto split: option.splits)

lemma parse_paths_eq:
  "parse_paths schema =
     (if truthy (get_member schema ''paths'')
      then map (\<lambda>path. \<lparr>table_name = tl path, table_schema = ''public'',
                        table_type = ''BASE TABLE''\<rparr>)
             (filter table_candidate (Object_keys (get_member schema ''paths'')))
      else [])"
proof -
  have cand: "(case path_match p of Some y \<Rightarrow> y \<noteq> ''rpc'' | None \<Rightarrow> False) = table_candidate p" for p
    by (cases p) (auto simp add: path_match_def table_path_re_iff table_candidate_def)
  have name: "table_candidate p \<Longrightarrow> the (path_match p) = tl p" for p
    by (cases p) (simp_all add: path_match_def table_path_re_iff table_candidate_def)
  show ?thesis
    unfolding parse_paths_def foldl_push cand
    by (auto simp: base_table_def name intro!: map_cong)
qed

lemma snd_probe: "snd (probe svc h st n) = snd st @ [probe_request n]"
  by (simp add: probe_def split: prod.splits)

lemma snd_foldl_probe:
  "snd (foldl (probe svc h) st names) = snd st @ map probe_request names"
  by (induction names arbitrary: st) (simp_all add: snd_probe)

lemma dictionary_calls_eq:
  "snd (dictionary svc h d) = map probe_request potentialTables"
  by (simp add: dictionary_def snd_foldl_probe)

lemma foldl_concat_map:
  "foldl f st (concat (map g xs)) = foldl (\<lambda>st x. foldl f st (g x)) st xs"
  by (induction xs arbitrary: st) simp_all

lemma foldl_guard:
  "foldl (\<lambda>st x. if P x then f st x else st) st xs = foldl f st (filter P xs)"
  by (induction xs arbitrary: st) simp_all

lemma brute_force_eq:
  "brute_force svc h d =
     foldl (probe svc h) (d, [])
       (filter (\<lambda>n. 0 < length n \<and> length n \<le> 20) candidates)"
proof -
  have inner: "foldl (\<lambda>st suffix. let tableName = p @ w @ suffix in
              if 0 < length tableName \<and> length tableName \<le> 20
              then probe svc h st tableName else st) st sufs
       = foldl (\<lambda>st n. if 0 < length n \<and> length n \<le> 20 then probe svc h st n else st) st
           (map (\<lambda>s. p @ w @ s) sufs)" for p w st sufs
    by (induction sufs arbitrary: st) (simp_all add: Let_def)
  show ?thesis
    unfolding brute_force_def candidates_def inner
    by (simp only: foldl_concat_map [symmetric] foldl_guard) (simp add: filter_concat o_def)
qed

lemma words_nonempty: "list_all (\<lambda>w. w \<noteq> []) commonWords"
  by (simp add: commonWords_def)

lemma set_candidates:
  "set candidates =
     {p @ w @ s | p w s.
        p \<in> set commonPrefixes \<and> w \<in> set commonWords \<and> s \<in> set commonSuffixes}"
  by (auto simp: candidates_def)

lemma candidates_nonempty: "n \<in> set candidates \<Longrightarrow> 0 < length n"
  using words_nonempty by (auto simp: set_candidates list_all_iff)

lemma filter_candidates:
  "filter (\<lambda>n. 0 < length n \<and> length n \<le> 20) candidates
     = filter (\<lambda>n. length n \<le> 20) candidates"
  by (rule filter_cong) (auto dest: candidates_nonempty)

lemma brute_force_calls_eq:
  "snd (brute_force svc h d) = map probe_request (filter (\<lambda>n. length n \<le> 20) candidates)"
  unfolding brute_force_eq snd_foldl_probe filter_candidates by simp

lemma potentialTables_nonempty: "potentialTables \<noteq> []"
  by (simp add: potentialTables_def)

lemma candidates_a: "''a'' \<in> set (filter (\<lambda>n. length n \<le> 20) candidates)"
proof -
  have "[] \<in> set commonPrefixes" by (simp add: commonPrefixes_def)
  moreover have "''a'' \<in> set commonWords" by (simp add: commonWords_def)
  moreover have "[] \<in> set commonSuffixes" by (simp add: commonSuffixes_def)
  ultimately have "[] @ ''a'' @ [] \<in> set candidates"
    unfolding set_candidates by blast
  then show ?thesis by simp
qed

lemma getTables_document:
  "fetched_document svc = Some schema \<Longrightarrow> getTables (Some svc) = discover svc schema"
  by (auto simp: fetched_document_def getTables_def split: settled.splits if_splits)

lemma getTables_no_document:
  "fetched_document svc = None \<Longrightarrow>
     \<exists>err. getTables (Some svc) = failed err [FetchRoot]"
  by (auto simp: fetched_document_def getTables_def split: settled.splits if_splits)

lemma parse_paths_openapi:
  "parse_paths openapi_document = [base_table ''users'', base_table ''order_items'']"
  by (simp add: parse_paths_eq openapi_document_def table_candidate_def is_identifier_def
      char_kinds base_table_def)

lemma fetched_openapi: "fetched_document openapi_service = Some openapi_document"
  by (simp add: fetched_document_def openapi_service_def ok_response_def openapi_document_def)

lemma fetched_bare: "fetched_document (bare_service names) = Some (JObj [])"
  by (simp add: fetched_document_def bare_service_def ok_response_def)

lemma parse_paths_bare: "parse_paths (JObj []) = []"
  by (simp add: parse_paths_def)

lemma discover_cases:
  "dictionary_calls (discover svc schema) =
     (if parse_paths schema = [] then map probe_request potentialTables else [])"
  "introspection_calls (discover svc schema) =
     (if parse_paths schema = [] \<and> fst (dictionary svc [FetchRoot] []) = []
      then [FetchIntrospection] else [])"
  "brute_calls (discover svc schema) =
     (if parse_paths schema = [] \<and> fst (dictionary svc [FetchRoot] []) = []
      then map probe_request (filter (\<lambda>n. length n \<le> 20) candidates) else [])"
  using dictionary_calls_eq [of svc "[FetchRoot]" "[]"]
    brute_force_calls_eq [of svc "[FetchRoot] @ snd (dictionary svc [FetchRoot] []) @ [FetchIntrospection]" "[]"]
  by (auto simp: discover_def Let_def split: prod.splits)

lemma fst_foldl_probe_bare:
  "fst (foldl (probe (bare_service names) h) st ns) =
     fst st @ map base_table (filter (\<lambda>n. n \<in> set names) ns)"
  by (induction ns arbitrary: st)
    (auto simp: probe_def bare_service_def no_rows_def not_found_def split: prod.splits)

lemma dictionary_bare:
  "fst (dictionary (bare_service names) h []) =
     map base_table (filter (\<lambda>n. n \<in> set names) potentialTables)"
  unfolding dictionary_def fst_foldl_probe_bare by simp

lemma brute_force_bare:
  "fst (brute_force (bare_service names) h []) =
     map base_table (filter (\<lambda>n. n \<in> set names) (filter (\<lambda>n. length n \<le> 20) candidates))"
  unfolding brute_force_eq filter_candidates fst_foldl_probe_bare by simp

lemma dictionary_misses_a: "fst (dictionary (bare_service [''a'']) h []) = []"
  by (simp add: dictionary_bare potentialTables_def)

lemma mem_nonempty: "x \<in> set xs \<Longrightarrow> xs \<noteq> []"
  by auto

lemma a_candidate: "''a'' \<in> set candidates"
  using candidates_a by (simp only: set_filter mem_Collect_eq)

lemma brute_force_finds_a: "fst (brute_force (bare_service [''a'']) h []) \<noteq> []"
proof -
  have "''a'' \<in> set (filter (\<lambda>n. n \<in> set [''a'']) (filter (\<lambda>n. length n \<le> 20) candidates))"
    unfolding set_filter mem_Collect_eq
    by (intro conjI a_candidate) simp_all
  then have ne: "filter (\<lambda>n. n \<in> set [''a'']) (filter (\<lambda>n. length n \<le> 20) candidates) \<noteq> []"
    by (rule mem_nonempty)
  show ?thesis
    unfolding brute_force_bare map_is_Nil_conv by (rule ne)
qed

lemma discovered_discover:
  "discovered (discover svc schema) =
     (if parse_paths schema \<noteq> [] then parse_paths schema
      else if fst (dictionary svc [FetchRoot] []) \<noteq> [] then fst (dictionary svc [FetchRoot] [])
      else fst (brute_force svc
                  ([FetchRoot] @ snd (dictionary svc [FetchRoot] []) @ [FetchIntrospection]) []))"
  by (auto simp: discover_def Let_def split: prod.splits)

section \<open>Method 1: the paths of the schema document\<close>

text \<open>
  C4. In method 1 the tables are the keys of \<^verbatim>\<open>schema.paths\<close>, in order, that consist of a
  slash followed by an identifier (a letter or underscore, then letters, digits or
  underscores) other than \<^verbatim>\<open>rpc\<close>; each gives the descriptor named by the identifier,
  with schema \<^verbatim>\<open>public\<close> and type \<^verbatim>\<open>BASE TABLE\<close>. No other key gives a descriptor.
\<close>

theorem schema_paths_candidates:
  "parse_paths schema =
     (if truthy (get_member schema ''paths'')
      then map (\<lambda>path. \<lparr>table_name = tl path, table_schema = ''public'',
                        table_type = ''BASE TABLE''\<rparr>)
             (filter table_candidate (Object_keys (get_member schema ''paths'')))
      else [])"
  by (rule parse_paths_eq)

section \<open>The cascade of methods\<close>

text \<open>
  C1. The cascade short-circuits. When the fetch of the schema document fails, no later
  method issues a request. Otherwise, when method 1 (the paths of the document) yields at
  least one table, methods 2 (dictionary), 3 (introspection) and 4 (brute force) issue no
  request; and a later method issues requests exactly when every earlier method yielded
  no table (method 3 never yields one).
\<close>

theorem cascade_short_circuit:
  "(case fetched_document svc of
      None \<Rightarrow>
        dictionary_calls (getTables (Some svc)) = [] \<and>
        introspection_calls (getTables (Some svc)) = [] \<and>
        brute_calls (getTables (Some svc)) = []
    | Some schema \<Rightarrow>
        (parse_paths schema \<noteq> [] \<longrightarrow>
           dictionary_calls (getTables (Some svc)) = [] \<and>
           introspection_calls (getTables (Some svc)) = [] \<and>
           brute_calls (getTables (Some svc)) = []) \<and>
        (dictionary_calls (getTables (Some svc)) \<noteq> [] \<longleftrightarrow> parse_paths schema = []) \<and>
        (introspection_calls (getTables (Some svc)) \<noteq> [] \<longleftrightarrow>
           parse_paths schema = [] \<and> fst (dictionary svc [FetchRoot] []) = []) \<and>
        (brute_calls (getTables (Some svc)) \<noteq> [] \<longleftrightarrow>
           parse_paths schema = [] \<and> fst (dictionary svc [FetchRoot] []) = []))"
proof (cases "fetched_document svc")
  case None
  then obtain err where "getTables (Some svc) = failed err [FetchRoot]"
    using getTables_no_document by blast
  with None show ?thesis by (simp add: failed_def)
next
  case (Some schema)
  have ne: "filter (\<lambda>n. length n \<le> 20) candidates \<noteq> []"
    using candidates_a by (metis empty_iff empty_set)
  from Some show ?thesis
    by (simp add: getTables_document discover_cases potentialTables_nonempty ne)
qed

text \<open>
  Two runs: a service whose document lists tables, where methods 2 to 4 stay silent, and
  a service with an empty document that answers only the name \<open>a\<close>, where the dictionary
  finds nothing and all of methods 2 to 4 run.
\<close>

theorem cascade_short_circuit_witness:
  "parse_paths openapi_document \<noteq> []
   \<and> dictionary_calls (getTables (Some openapi_service)) = []
   \<and> introspection_calls (getTables (Some openapi_service)) = []
   \<and> brute_calls (getTables (Some openapi_service)) = []
   \<and> parse_paths (JObj []) = []
   \<and> fst (dictionary (bare_service [''a'']) [FetchRoot] []) = []
   \<and> dictionary_calls (getTables (Some (bare_service [''a'']))) \<noteq> []
   \<and> introspection_calls (getTables (Some (bare_service [''a'']))) \<noteq> []
   \<and> brute_calls (getTables (Some (bare_service [''a'']))) \<noteq> []"
  using cascade_short_circuit [of openapi_service] cascade_short_circuit [of "bare_service [''a'']"]
  by (simp add: fetched_openapi fetched_bare parse_paths_openapi parse_paths_bare
      dictionary_misses_a)

section \<open>When table discovery fails\<close>

text \<open>
  C3, as stated, fails: when the schema fetch answers with status 503, \<^verbatim>\<open>getTables\<close>
  throws instead of returning an empty list.
\<close>

theorem unavailable_service_fails:
  "result (getTables (Some unavailable_service)) =
     Inl ''Failed to load tables: Failed to fetch schema: 503''"
  by (simp add: getTables_def unavailable_service_def failed_def nat_to_string.simps
      digit_char_def)

text \<open>
  C3, amended. A connected \<^verbatim>\<open>getTables\<close> returns a list of tables (possibly empty) exactly
  when the initial fetch of the schema document is fulfilled with a success status and a
  body that parses to a JSON value other than \<^verbatim>\<open>null\<close>; whatever the later probes and the
  introspection request answer, nothing else is raised. In every other case it throws an
  error whose message starts with \<^verbatim>\<open>Failed to load tables: \<close>.
\<close>

theorem getTables_returns_iff:
  "((\<exists>tables. result (getTables (Some svc)) = Inr tables) \<longleftrightarrow>
      (\<exists>response schema.
          fetch svc [] FetchRoot = Fulfilled response \<and> ok response \<and>
          json response = Fulfilled schema \<and> schema \<noteq> JNull \<and> schema \<noteq> JUndefined))
   \<and> ((\<exists>tables. result (getTables (Some svc)) = Inr tables) \<or>
        (\<exists>err. result (getTables (Some svc)) = Inl (''Failed to load tables: '' @ err_message err)))"
proof (cases "fetched_document svc")
  case None
  then obtain err where "getTables (Some svc) = failed err [FetchRoot]"
    using getTables_no_document by blast
  moreover from None have "\<not> (\<exists>response schema.
          fetch svc [] FetchRoot = Fulfilled response \<and> ok response \<and>
          json response = Fulfilled schema \<and> schema \<noteq> JNull \<and> schema \<noteq> JUndefined)"
    by (auto simp: fetched_document_def split: settled.splits if_splits)
  ultimately show ?thesis by (auto simp: failed_def)
next
  case (Some schema)
  then have "\<exists>response schema.
          fetch svc [] FetchRoot = Fulfilled response \<and> ok response \<and>
          json response = Fulfilled schema \<and> schema \<noteq> JNull \<and> schema \<noteq> JUndefined"
    by (auto simp: fetched_document_def split: settled.splits if_splits)
  moreover from Some have "result (getTables (Some svc)) = Inr (uniqueTables (discovered (discover svc schema)))"
    by (simp add: getTables_document discover_def Let_def split: prod.splits)
  ultimately show ?thesis by simp
qed

text \<open>A service with an empty document and no accessible table: the run returns a list.\<close>

theorem getTables_returns_iff_witness:
  "\<exists>tables. result (getTables (Some (bare_service []))) = Inr tables"
  using getTables_returns_iff [of "bare_service []"]
  by (simp add: bare_service_def ok_response_def)

section \<open>Method 4: brute force\<close>

text \<open>
  C5. When the document lists no table and the dictionary finds none, method 4 probes, in
  loop order, every concatenation of one of the 6 prefixes, one of the 40 words and one of
  the 6 suffixes whose length is at most 20, whatever the service answers to any of the
  probes: an accepted name does not end the pass.
\<close>

theorem brute_force_exhaustive:
  assumes "fetched_document svc = Some schema"
    and "parse_paths schema = []"
    and "fst (dictionary svc [FetchRoot] []) = []"
  shows "brute_calls (getTables (Some svc)) =
           map (\<lambda>tableName. SelectLimit tableName 1)
             (filter (\<lambda>tableName. length tableName \<le> 20)
                [p @ w @ s. p \<leftarrow> commonPrefixes, w \<leftarrow> commonWords, s \<leftarrow> commonSuffixes])
       \<and> {tableName. SelectLimit tableName 1 \<in> set (brute_calls (getTables (Some svc)))} =
           {p @ w @ s | p w s.
              p \<in> set commonPrefixes \<and> w \<in> set commonWords \<and> s \<in> set commonSuffixes \<and>
              length (p @ w @ s) \<le> 20}
       \<and> length commonPrefixes = 6 \<and> length commonWords = 40 \<and> length commonSuffixes = 6"
proof -
  have calls: "brute_calls (getTables (Some svc)) =
      map probe_request (filter (\<lambda>n. length n \<le> 20) candidates)"
    using assms by (simp add: getTables_document discover_cases)
  have "{n. probe_request n \<in> set (map probe_request (filter (\<lambda>n. length n \<le> 20) candidates))}
      = {n \<in> set candidates. length n \<le> 20}"
    by auto
  also have "\<dots> = {p @ w @ s | p w s.
              p \<in> set commonPrefixes \<and> w \<in> set commonWords \<and> s \<in> set commonSuffixes \<and>
              length (p @ w @ s) \<le> 20}"
    unfolding set_candidates by blast
  finally have names: "{n. probe_request n \<in> set (brute_calls (getTables (Some svc)))} =
     {p @ w @ s | p w s.
              p \<in> set commonPrefixes \<and> w \<in> set commonWords \<and> s \<in> set commonSuffixes \<and>
              length (p @ w @ s) \<le> 20}"
    unfolding calls .
  have sizes: "length commonPrefixes = 6 \<and> length commonWords = 40 \<and> length commonSuffixes = 6"
    by (simp add: commonPrefixes_def commonWords_def commonSuffixes_def)
  from calls names sizes show ?thesis
    unfolding candidates_def by blast
qed

text \<open>
  A service that accepts the name \<open>a\<close>, the first combination probed: a table is found
  and the pass still probes every combination.
\<close>

theorem brute_force_exhaustive_witness:
  "discovered (getTables (Some (bare_service [''a'']))) \<noteq> []
   \<and> brute_calls (getTables (Some (bare_service [''a'']))) =
           map (\<lambda>tableName. SelectLimit tableName 1)
             (filter (\<lambda>tableName. length tableName \<le> 20)
                [p @ w @ s. p \<leftarrow> commonPrefixes, w \<leftarrow> commonWords, s \<leftarrow> commonSuffixes])"
proof -
  have "discovered (getTables (Some (bare_service [''a'']))) \<noteq> []"
    by (simp add: getTables_document [OF fetched_bare] discovered_discover parse_paths_bare
        dictionary_misses_a brute_force_finds_a)
  with brute_force_exhaustive [OF fetched_bare parse_paths_bare dictionary_misses_a]
  show ?thesis by blast
qed

section \<open>The removal of duplicates\<close>

lemma findIndex_ge: "- 1 \<le> findIndex p xs"
  by (induction xs) (auto simp: Let_def)

lemma findIndex_hit:
  "\<exists>u\<in>set pre. p u \<Longrightarrow> 0 \<le> findIndex p (pre @ ys) \<and> findIndex p (pre @ ys) < int (length pre)"
proof (induction pre)
  case Nil
  then show ?case by simp
next
  case (Cons a pre)
  show ?case
  proof (cases "p a")
    case True
    then show ?thesis by simp
  next
    case False
    with Cons.prems have "\<exists>u\<in>set pre. p u" by simp
    from Cons.IH [OF this] False show ?thesis by (simp add: Let_def)
  qed
qed

lemma findIndex_miss:
  "\<forall>u\<in>set pre. \<not> p u \<Longrightarrow>
     findIndex p (pre @ ys) = (if findIndex p ys < 0 then - 1 else int (length pre) + findIndex p ys)"
  using findIndex_ge [of p ys] by (induction pre) (auto simp: Let_def)

lemma findIndex_here:
  "findIndex p (pre @ x # xs) = int (length pre) \<longleftrightarrow> (\<forall>u\<in>set pre. \<not> p u) \<and> p x"
proof (cases "\<exists>u\<in>set pre. p u")
  case True
  with findIndex_hit [of pre p "x # xs"] show ?thesis by auto
next
  case False
  then have "\<forall>u\<in>set pre. \<not> p u" by blast
  from findIndex_miss [OF this, of "x # xs"] findIndex_ge [of p xs] show ?thesis
    using False by (auto simp: Let_def)
qed

lemma notin_image_iff: "(\<forall>u\<in>set pre. f u \<noteq> f x) \<longleftrightarrow> f x \<notin> f ` set pre"
  by (metis image_iff)

lemma filter_indexed_first_wins:
  "filter_indexed
     (\<lambda>table index. int index = findIndex (\<lambda>t. table_name t = table_name table) (pre @ xs))
     (length pre) xs
   = first_wins (filter (\<lambda>t. table_name t \<notin> table_name ` set pre) xs)"
proof (induction xs arbitrary: pre)
  case Nil
  show ?case by simp
next
  case (Cons x xs)
  have here: "int (length pre) = findIndex (\<lambda>t. table_name t = table_name x) (pre @ x # xs)
      \<longleftrightarrow> table_name x \<notin> table_name ` set pre"
  proof -
    have "(\<forall>u\<in>set pre. table_name u \<noteq> table_name x) \<longleftrightarrow> table_name x \<notin> table_name ` set pre"
      by (rule notin_image_iff)
    with findIndex_here [of "\<lambda>t. table_name t = table_name x" pre x xs] show ?thesis
      by metis
  qed
  have IH: "filter_indexed
     (\<lambda>table index. int index = findIndex (\<lambda>t. table_name t = table_name table) (pre @ x # xs))
     (Suc (length pre)) xs
   = first_wins (filter (\<lambda>t. table_name t \<notin> table_name ` set (pre @ [x])) xs)"
    using Cons.IH [of "pre @ [x]"] by simp
  show ?case
  proof (cases "table_name x \<in> table_name ` set pre")
    case True
    have "filter (\<lambda>t. table_name t \<notin> table_name ` set (pre @ [x])) xs
        = filter (\<lambda>t. table_name t \<notin> table_name ` set pre) xs"
      using True by (intro filter_cong) auto
    with True here IH show ?thesis by simp
  next
    case False
    have "filter (\<lambda>t. table_name t \<notin> table_name ` set (pre @ [x])) xs
        = filter (\<lambda>u. table_name u \<noteq> table_name x)
            (filter (\<lambda>t. table_name t \<notin> table_name ` set pre) xs)"
      by (auto intro: filter_cong)
    with False here IH show ?thesis by simp
  qed
qed

lemma uniqueTables_first_wins: "uniqueTables ds = first_wins ds"
  using filter_indexed_first_wins [of "[]" ds] by (simp add: uniqueTables_def)

lemma set_first_wins: "table_name ` set (first_wins ds) = table_name ` set ds"
  by (induction ds rule: first_wins.induct) auto

lemma first_wins_subset: "set (first_wins ds) \<subseteq> set ds"
  by (induction ds rule: first_wins.induct) auto

lemma distinct_first_wins: "distinct (map table_name (first_wins ds))"
proof (induction ds rule: first_wins.induct)
  case 1
  show ?case by simp
next
  case (2 t ts)
  have "table_name t \<notin> table_name ` set (first_wins (filter (\<lambda>u. table_name u \<noteq> table_name t) ts))"
    using first_wins_subset [of "filter (\<lambda>u. table_name u \<noteq> table_name t) ts"] by auto
  with 2 show ?case by simp
qed

lemma find_first_wins:
  "t \<in> set (first_wins ds) \<Longrightarrow> find (\<lambda>u. table_name u = table_name t) ds = Some t"
proof (induction ds rule: first_wins.induct)
  case 1
  then show ?case by simp
next
  case (2 d ds)
  show ?case
  proof (cases "t = d")
    case True
    then show ?thesis by simp
  next
    case False
    with "2.prems" have mem: "t \<in> set (first_wins (filter (\<lambda>u. table_name u \<noteq> table_name d) ds))"
      by simp
    then have ne: "table_name t \<noteq> table_name d"
      using first_wins_subset [of "filter (\<lambda>u. table_name u \<noteq> table_name d) ds"] by auto
    from "2.IH" [OF mem]
    have "find (\<lambda>u. table_name u = table_name t) (filter (\<lambda>u. table_name u \<noteq> table_name d) ds) = Some t" .
    moreover have "find (\<lambda>u. table_name u = table_name t) (filter (\<lambda>u. table_name u \<noteq> table_name d) ds)
        = find (\<lambda>u. table_name u = table_name t) ds"
      using ne by (induction ds) auto
    ultimately show ?thesis using ne by simp
  qed
qed

lemma result_getTables:
  "result (getTables client) = Inr tables \<Longrightarrow>
     tables = uniqueTables (discovered (getTables client))"
  by (auto simp: getTables_def failed_def discover_def Let_def
      split: option.splits settled.splits if_splits prod.splits)

text \<open>
  C7. Whenever \<^verbatim>\<open>getTables\<close> returns, the names of the returned tables are pairwise
  distinct, they are the names found during discovery, every returned descriptor is the
  first one of its name in discovery order, and the returned list is the discovery list
  with every later occurrence of a name removed.
\<close>

theorem no_duplicate_tables:
  assumes "result (getTables client) = Inr tables"
  shows "distinct (map table_name tables)
       \<and> set (map table_name tables) = set (map table_name (discovered (getTables client)))
       \<and> list_all (\<lambda>t. find (\<lambda>u. table_name u = table_name t) (discovered (getTables client)) = Some t)
           tables
       \<and> tables = first_wins (discovered (getTables client))"
proof -
  from assms have "tables = first_wins (discovered (getTables client))"
    by (metis result_getTables uniqueTables_first_wins)
  then show ?thesis
    by (simp add: distinct_first_wins set_first_wins list_all_iff find_first_wins)
qed

text \<open>
  The run on the service whose document lists \<open>users\<close> and \<open>order_items\<close>; and the
  filter on a list in which brute force found \<open>data_data\<close> twice (as \<open>data\<close> with the
  suffix \<open>_data\<close>, and as the prefix \<open>data_\<close> with \<open>data\<close>).
\<close>

theorem no_duplicate_tables_witness:
  "result (getTables (Some openapi_service)) =
      Inr [base_table ''users'', base_table ''order_items'']
   \<and> distinct (map table_name [base_table ''users'', base_table ''order_items''])
   \<and> uniqueTables [base_table ''data_data'', base_table ''logs'', base_table ''data_data'']
       = [base_table ''data_data'', base_table ''logs'']"
proof -
  have dup: "uniqueTables [base_table ''data_data'', base_table ''logs'', base_table ''data_data'']
       = [base_table ''data_data'', base_table ''logs'']"
    by (simp add: uniqueTables_def base_table_def)
  have r: "result (getTables (Some openapi_service)) =
      Inr [base_table ''users'', base_table ''order_items'']"
    by (simp add: getTables_document [OF fetched_openapi] discover_def Let_def
        parse_paths_openapi uniqueTables_def base_table_def)
  from no_duplicate_tables [OF r] have "distinct (map table_name [base_table ''users'', base_table ''order_items''])"
    by blast
  with r dup show ?thesis by blast
qed

section \<open>The probes of schema inference\<close>

text \<open>
  C6. For every table name and every connected service: when the limit-1 probe answers
  with an error, \<^verbatim>\<open>getColumns\<close> throws at once, with a message that carries the error's
  message, and issues no second probe; when the probe is rejected it throws at once as
  well. When the limit-1 probe answers without error and with no row, a limit-0 probe is
  issued; \<^verbatim>\<open>getColumns\<close> returns the empty column list when that probe answers with data
  and no error, and throws when it answers with an error or is rejected.
\<close>

theorem getColumns_probe_outcomes:
  "(\<forall>sample e.
      query svc [] (SelectLimit t 1) = Fulfilled sample \<and> error sample = Some e \<longrightarrow>
      getColumns (Some svc) t =
        (Inl (''Failed to load columns: Cannot access table '' @ dq @ t @ dq @ '': '' @ message e),
         [SelectLimit t 1]))
   \<and> (\<forall>err.
        query svc [] (SelectLimit t 1) = Rejected err \<longrightarrow>
        getColumns (Some svc) t =
          (Inl (''Failed to load columns: '' @ err_message err), [SelectLimit t 1]))
   \<and> (\<forall>sample.
        query svc [] (SelectLimit t 1) = Fulfilled sample \<and> error sample = None \<and>
        (data sample = None \<or> data sample = Some []) \<longrightarrow>
        snd (getColumns (Some svc) t) = [SelectLimit t 1, SelectLimit t 0] \<and>
        fst (getColumns (Some svc) t) =
          (case query svc [SelectLimit t 1] (SelectLimit t 0) of
             Fulfilled answer \<Rightarrow>
               if error answer = None \<and> data answer \<noteq> None then Inr []
               else Inl (''Failed to load columns: Table '' @ dq @ t @ dq @
                         '' appears to be empty and column structure cannot be determined'')
           | Rejected err \<Rightarrow> Inl (''Failed to load columns: '' @ err_message err)))"
  by (auto simp: getColumns_def columns_failed_def split: settled.splits option.splits list.splits)

text \<open>
  Three services: one that denies access, one whose table \<open>t\<close> is empty, and one that
  answers the first request with no row and every later request with an error.
\<close>

theorem getColumns_probe_outcomes_witness:
  "getColumns (Some denied_service) ''t'' =
     (Inl (''Failed to load columns: Cannot access table '' @ dq @ ''t'' @ dq @
           '': permission denied for table t''),
      [SelectLimit ''t'' 1])
   \<and> getColumns (Some (bare_service [''t''])) ''t'' =
       (Inr [], [SelectLimit ''t'' 1, SelectLimit ''t'' 0])
   \<and> getColumns (Some fading_service) ''t'' =
       (Inl (''Failed to load columns: Table '' @ dq @ ''t'' @ dq @
             '' appears to be empty and column structure cannot be determined''),
        [SelectLimit ''t'' 1, SelectLimit ''t'' 0])"
proof -
  have q1: "query denied_service [] (SelectLimit ''t'' 1) =
      Fulfilled \<lparr>data = None, error = Some (PgError ''permission denied for table t'' False)\<rparr>"
    by (simp add: denied_service_def)
  have a: "getColumns (Some denied_service) ''t'' =
     (Inl (''Failed to load columns: Cannot access table '' @ dq @ ''t'' @ dq @
           '': permission denied for table t''),
      [SelectLimit ''t'' 1])"
    using getColumns_probe_outcomes [of denied_service "''t''"] q1 by simp
  have q2: "query (bare_service [''t'']) h (SelectLimit ''t'' k) = Fulfilled no_rows" for h k
    by (simp add: bare_service_def)
  have b: "getColumns (Some (bare_service [''t''])) ''t'' =
       (Inr [], [SelectLimit ''t'' 1, SelectLimit ''t'' 0])"
    using getColumns_probe_outcomes [of "bare_service [''t'']" "''t''"]
    by (simp add: q2 no_rows_def prod_eq_iff)
  have q3: "query fading_service [] r = Fulfilled no_rows"
    "query fading_service (x # xs) r = Fulfilled not_found" for r x xs
    by (simp_all add: fading_service_def)
  have c: "getColumns (Some fading_service) ''t'' =
       (Inl (''Failed to load columns: Table '' @ dq @ ''t'' @ dq @
             '' appears to be empty and column structure cannot be determined''),
        [SelectLimit ''t'' 1, SelectLimit ''t'' 0])"
    using getColumns_probe_outcomes [of fading_service "''t''"]
    by (simp add: q3 no_rows_def not_found_def prod_eq_iff)
  from a b c show ?thesis by blast
qed

section \<open>The payload of a write\<close>

lemma put_own_fresh: "key \<notin> fst ` set acc \<Longrightarrow> put_own acc key v = acc @ [(key, v)]"
  by (induction acc) auto

lemma foldl_assign_distinct:
  "distinct (map fst acc @ map fst row) \<Longrightarrow> ''__proto__'' \<notin> fst ` set row \<Longrightarrow>
     foldl (\<lambda>acc (key, v). if v = JStr [] then assign acc key JNull else assign acc key v) acc row
       = acc @ map (\<lambda>(key, v). (key, if v = JStr [] then JNull else v)) row"
proof (induction row arbitrary: acc)
  case Nil
  show ?case by simp
next
  case (Cons p row)
  obtain key v where p: "p = (key, v)" by (cases p)
  from Cons.prems p have fresh: "key \<notin> fst ` set acc" and ordinary: "key \<noteq> ''__proto__''"
    by auto
  from Cons.prems p have d: "distinct (map fst (acc @ [(key, w)]) @ map fst row)" for w
    by auto
  from Cons.prems have rest: "''__proto__'' \<notin> fst ` set row"
    by simp
  from Cons.IH [OF d [of JNull] rest] Cons.IH [OF d [of v] rest] fresh ordinary p show ?case
    by (simp add: assign_def put_own_fresh)
qed

text \<open>
  For a row object (its keys are distinct) with no field named \<^verbatim>\<open>__proto__\<close>, the payload
  that \<^verbatim>\<open>insertRow\<close> and \<^verbatim>\<open>updateRow\<close> submit has the keys of the input, in the same order;
  a key whose value is the empty string is mapped to \<^verbatim>\<open>null\<close>, and every other key to its
  value, unchanged.
\<close>

lemma ordinary_fields_normalised:
  assumes "distinct (map fst rowData)" and "''__proto__'' \<notin> fst ` set rowData"
  shows "snd (insertRow (Some svc) tableName rowData) =
           [Insert tableName (map (\<lambda>(key, v). (key, if v = JStr '''' then JNull else v)) rowData)]
       \<and> snd (updateRow (Some svc) tableName rowData primaryKey keyValue) =
           [Update tableName (map (\<lambda>(key, v). (key, if v = JStr '''' then JNull else v)) rowData)
              primaryKey keyValue]"
proof -
  have "cleanedData rowData = map (\<lambda>(key, v). (key, if v = JStr '''' then JNull else v)) rowData"
    using foldl_assign_distinct [of "[]" rowData] assms by (simp add: cleanedData_def)
  then show ?thesis
    by (simp add: insertRow_def updateRow_def)
qed

text \<open>
  C8 fails on the code for a field named \<^verbatim>\<open>__proto__\<close>: the payload lacks that key, while
  the other fields are submitted as the claim says.
\<close>

theorem proto_field_dropped:
  "snd (insertRow (Some openapi_service) ''users''
          [(''__proto__'', JStr ''x''), (''name'', JStr ''Ada''), (''nick'', JStr '''')]) =
     [Insert ''users'' [(''name'', JStr ''Ada''), (''nick'', JNull)]]
   \<and> snd (updateRow (Some openapi_service) ''users''
          [(''__proto__'', JStr ''x''), (''name'', JStr ''Ada''), (''nick'', JStr '''')]
          ''id'' (JNum (Fin 7))) =
     [Update ''users'' [(''name'', JStr ''Ada''), (''nick'', JNull)] ''id'' (JNum (Fin 7))]"
  by (simp add: insertRow_def updateRow_def cleanedData_def assign_def)

section \<open>The rows of the SQL export\<close>

lemma export_rows_eq:
  "export_rows rt tableName index rows sql =
     sql @ concat (map (\<lambda>(row, i). insert_statement rt tableName row @ progress_comment (i + 1))
                    (zip rows [index..<index + length rows]))"
proof (induction rows arbitrary: index sql)
  case Nil
  show ?case by simp
next
  case (Cons row rows)
  have "[index..<index + length (row # rows)] = index # [Suc index..<Suc index + length rows]"
    by (subst upt_rec) simp
  then show ?case
    by (simp add: Cons.IH progress_comment_def Let_def)
qed

lemma join_Cons:
  "join sep (x # xs) = x @ concat (map (\<lambda>y. sep @ y) xs)"
  by (induction xs arbitrary: x) simp_all

lemma insert_statement_Nil:
  "insert_statement rt tableName [] =
     ''INSERT INTO '' @ dq @ tableName @ dq @ '' () VALUES ();'' @ nl"
  by (simp add: insert_statement_def)

lemma insert_statement_Cons:
  "insert_statement rt tableName ((col, val) # rest) =
     ''INSERT INTO '' @ dq @ tableName @ dq @
     '' ('' @ dq @ col @ dq @ concat (map (\<lambda>(c, v). '', '' @ dq @ c @ dq) rest) @
     '') VALUES ('' @ sql_value rt val @ concat (map (\<lambda>(c, v). '', '' @ sql_value rt v) rest) @
     '');'' @ nl"
  by (simp add: insert_statement_def join_Cons comp_def case_prod_unfold)

text \<open>
  C9. A value of a row is encoded as \<^verbatim>\<open>NULL\<close> when it is null or undefined; a string
  between single quotes with every single quote in it doubled (and no other character
  changed); a boolean as \<^verbatim>\<open>TRUE\<close> or \<^verbatim>\<open>FALSE\<close>; an object or array as its JSON text,
  quoted in the same way; any other value by \<^verbatim>\<open>String\<close>, unquoted (42 and -7 as their
  numerals; \<open>2\<^sup>6\<^sup>3\<close>, which \<^verbatim>\<open>String\<close> prints with fewer digits than its numeral has,
  by the parameter). The statement of a
  row names the table and the row's columns and holds, between the parentheses after
  \<^verbatim>\<open>VALUES\<close>, the encodings of the row's values in the order of the row, separated by a
  comma and a space (nothing, for a row without fields). The rows of a table give one
  such statement each, in order (followed by a progress comment after every hundredth
  row), appended after the header comment of the data block; and the row with id 1 and
  name O'Brien gives a statement with the value 1 unquoted and the literal 'O''Brien'.
\<close>

theorem sql_export_values:
  "sql_value rt JNull = ''NULL''
   \<and> sql_value rt JUndefined = ''NULL''
   \<and> sql_value rt (JStr s) = [sq] @ replace_quotes s @ [sq]
   \<and> replace_quotes (s @ [sq] @ s') = replace_quotes s @ [sq, sq] @ replace_quotes s'
   \<and> filter (\<lambda>c. c \<noteq> sq) (replace_quotes s) = filter (\<lambda>c. c \<noteq> sq) s
   \<and> sql_value rt (JBool b) = (if b then ''TRUE'' else ''FALSE'')
   \<and> sql_value rt (JObj kvs) = [sq] @ replace_quotes (JSON_stringify rt (JObj kvs)) @ [sq]
   \<and> sql_value rt (JArr xs) = [sq] @ replace_quotes (JSON_stringify rt (JArr xs)) @ [sq]
   \<and> sql_value rt (JNum n) = js_String rt (JNum n)
   \<and> sql_value rt (JBigInt i) = js_String rt (JBigInt i)
   \<and> sql_value rt (JSymbol d) = js_String rt (JSymbol d)
   \<and> sql_value rt (JFunction src) = js_String rt (JFunction src)
   \<and> sql_value rt (JNum (Fin 42)) = ''42''
   \<and> sql_value rt (JNum (Fin (- 7))) = ''-7''
   \<and> sql_value rt (JNum (Fin (2 ^ 63))) = String_other rt (JNum (Fin (2 ^ 63)))
   \<and> insert_statement rt tableName [] =
       ''INSERT INTO '' @ dq @ tableName @ dq @ '' () VALUES ();'' @ nl
   \<and> insert_statement rt tableName ((col, val) # rest) =
       ''INSERT INTO '' @ dq @ tableName @ dq @
       '' ('' @ dq @ col @ dq @ concat (map (\<lambda>(c, v). '', '' @ dq @ c @ dq) rest) @
       '') VALUES ('' @ sql_value rt val @
       concat (map (\<lambda>(c, v). '', '' @ sql_value rt v) rest) @ '');'' @ nl
   \<and> export_data rt True tableName (Some (row # rows)) sql =
       export_rows rt tableName 0 (row # rows)
         (sql @ ''-- Data for table: '' @ tableName @ '' ('' @
            nat_to_string (length (row # rows)) @ '' rows)'' @ nl) @ nl
   \<and> export_rows rt tableName 0 rows sql =
       sql @ concat (map (\<lambda>(row, i). insert_statement rt tableName row @ progress_comment (i + 1))
                      (zip rows [0..<length rows]))
   \<and> insert_statement rt ''people'' [(''id'', JNum (Fin 1)), (''name'', JStr (''O'' @ [sq] @ ''Brien''))]
       = ''INSERT INTO '' @ dq @ ''people'' @ dq @ '' ('' @ dq @ ''id'' @ dq @ '', '' @ dq @ ''name'' @ dq @
         '') VALUES (1, '' @ [sq] @ ''O'' @ [sq, sq] @ ''Brien'' @ [sq] @ '');'' @ nl"
proof -
  have block: "export_data rt True tableName (Some (row # rows)) sql =
       export_rows rt tableName 0 (row # rows)
         (sql @ ''-- Data for table: '' @ tableName @ '' ('' @
            nat_to_string (length (row # rows)) @ '' rows)'' @ nl) @ nl"
    unfolding export_data_def by simp
  have vals: "sql_value rt JNull = ''NULL''
   \<and> sql_value rt JUndefined = ''NULL''
   \<and> sql_value rt (JStr s) = [sq] @ replace_quotes s @ [sq]
   \<and> sql_value rt (JBool b) = (if b then ''TRUE'' else ''FALSE'')
   \<and> sql_value rt (JObj kvs) = [sq] @ replace_quotes (JSON_stringify rt (JObj kvs)) @ [sq]
   \<and> sql_value rt (JArr xs) = [sq] @ replace_quotes (JSON_stringify rt (JArr xs)) @ [sq]
   \<and> sql_value rt (JNum n) = js_String rt (JNum n)
   \<and> sql_value rt (JBigInt i) = js_String rt (JBigInt i)
   \<and> sql_value rt (JSymbol d) = js_String rt (JSymbol d)
   \<and> sql_value rt (JFunction src) = js_String rt (JFunction src)"
    by (simp add: sql_value_def)
  have nums: "sql_value rt (JNum (Fin 42)) = ''42''
   \<and> sql_value rt (JNum (Fin (- 7))) = ''-7''
   \<and> sql_value rt (JNum (Fin (2 ^ 63))) = String_other rt (JNum (Fin (2 ^ 63)))"
    by (simp add: sql_value_def js_String_def int_to_string_def nat_to_string.simps digit_char_def)
  have rq: "replace_quotes (s @ [sq] @ s') = replace_quotes s @ [sq, sq] @ replace_quotes s'"
    by (simp add: replace_quotes_def)
  have keep: "filter (\<lambda>c. c \<noteq> sq) (replace_quotes s) = filter (\<lambda>c. c \<noteq> sq) s"
    unfolding replace_quotes_def by (induction s) auto
  have rows: "export_rows rt tableName 0 rows sql =
       sql @ concat (map (\<lambda>(row, i). insert_statement rt tableName row @ progress_comment (i + 1))
                      (zip rows [0..<length rows]))"
    using export_rows_eq [of rt tableName 0 rows sql] by simp
  have one: "js_String rt (JNum (Fin 1)) = ''1''"
    by (simp add: js_String_def int_to_string_def nat_to_string.simps digit_char_def)
  have brien: "replace_quotes (''O'' @ [sq] @ ''Brien'') = ''O'' @ [sq, sq] @ ''Brien''"
    by (simp add: replace_quotes_def sq_def)
  have example: "insert_statement rt ''people'' [(''id'', JNum (Fin 1)), (''name'', JStr (''O'' @ [sq] @ ''Brien''))]
       = ''INSERT INTO '' @ dq @ ''people'' @ dq @ '' ('' @ dq @ ''id'' @ dq @ '', '' @ dq @ ''name'' @ dq @
         '') VALUES (1, '' @ [sq] @ ''O'' @ [sq, sq] @ ''Brien'' @ [sq] @ '');'' @ nl"
    unfolding insert_statement_def Let_def
    by (simp add: sql_value_def one replace_quotes_def dq_def sq_def nl_def)
  note stmt = insert_statement_Nil [of rt tableName]
    insert_statement_Cons [of rt tableName col val rest]
  from vals nums rq keep stmt block rows example show ?thesis by blast
qed

section \<open>The SQL import\<close>

lemma import_all_rejected:
  assumes "\<And>stmt. exec stmt = Rejected (Error msg)"
  shows "foldl (\<lambda>results statement.
              case exec statement of
                Fulfilled v \<Rightarrow>
                  results\<lparr>statementsExecuted := statementsExecuted results + 1\<rparr>
              | Rejected err \<Rightarrow>
                  results\<lparr>errors := errors results @ [''SQL Error: '' @ err_message err]\<rparr>)
       init stmts
     = init\<lparr>errors := errors init @ map (\<lambda>stmt. ''SQL Error: '' @ msg) stmts\<rparr>"
  by (induction stmts arbitrary: init) (simp_all add: assms)

text \<open>
  C10. \<^verbatim>\<open>executeSQL\<close> throws on every call, with or without a client. So for every SQL
  text \<^verbatim>\<open>importSQLData\<close> executes no statement and records one error for each statement
  that survives the split on semicolons, the trim and the filter; with a client each
  error is the message of \<^verbatim>\<open>executeSQL\<close>.
\<close>

theorem sql_import_never_executes:
  "(\<exists>msg. executeSQL client sqlQuery = Rejected (Error msg))
   \<and> statementsExecuted (importSQLData (executeSQL client) sqlContent) = 0
   \<and> length (errors (importSQLData (executeSQL client) sqlContent)) =
       length (sql_statements sqlContent)
   \<and> errors (importSQLData (executeSQL (Some svc)) sqlContent) =
       map (\<lambda>stmt. ''SQL Error: SQL execution not available: Direct SQL execution requires custom database functions. Please use the table interface instead.'')
         (sql_statements sqlContent)"
proof -
  obtain msg where msg: "\<And>stmt. executeSQL client stmt = Rejected (Error msg)"
    by (cases client) (simp_all add: executeSQL_def)
  have m2: "\<And>stmt. executeSQL (Some svc) stmt = Rejected (Error ''SQL execution not available: Direct SQL execution requires custom database functions. Please use the table interface instead.'')"
    by (simp add: executeSQL_def)
  show ?thesis
    unfolding importSQLData_def import_all_rejected [of "executeSQL client", OF msg]
      import_all_rejected [of "executeSQL (Some svc)", OF m2]
    using msg by simp
qed

end
